theory Spec2Isabelle
  imports Complex_Main
begin

section \<open>JavaScript values used by the retry code\<close>

text \<open>
  A JavaScript \<^verbatim>\<open>number\<close>: the three special values and the finite ones. A finite
  number is represented by its exact value; the rounding and the overflow of binary64
  arithmetic are not modelled, and negative zero is identified with zero (no operation
  below tells them apart). A value of type \<^verbatim>\<open>number | undefined\<close> is a \<open>jsnum option\<close>.
\<close>

datatype jsnum = NaN | PosInf | NegInf | Fin rat

text \<open>\<^verbatim>\<open>Number.isNaN\<close>, \<^verbatim>\<open>Number.isFinite\<close> and the truthiness of a number.\<close>

fun isNaN :: "jsnum \<Rightarrow> bool" where
  "isNaN NaN = True"
| "isNaN _ = False"

fun isFinite :: "jsnum \<Rightarrow> bool" where
  "isFinite (Fin _) = True"
| "isFinite _ = False"

text \<open>\<^verbatim>\<open>Number.isFinite\<close> applied to a value that may be \<^verbatim>\<open>undefined\<close>.\<close>

fun Number_isFinite :: "jsnum option \<Rightarrow> bool" where
  "Number_isFinite None = False"
| "Number_isFinite (Some n) = isFinite n"

fun truthy_num :: "jsnum \<Rightarrow> bool" where
  "truthy_num NaN = False"
| "truthy_num (Fin q) = (q \<noteq> 0)"
| "truthy_num _ = True"

text \<open>The sign of a number, for the products and differences of special values.\<close>

fun sgn_num :: "jsnum \<Rightarrow> int" where
  "sgn_num NaN = 0"
| "sgn_num PosInf = 1"
| "sgn_num NegInf = - 1"
| "sgn_num (Fin q) = (if q < 0 then - 1 else if q = 0 then 0 else 1)"

text \<open>The operators \<^verbatim>\<open>*\<close> and \<^verbatim>\<open>-\<close> on numbers, and \<^verbatim>\<open>Math.max\<close> of two numbers.\<close>

fun js_times :: "jsnum \<Rightarrow> jsnum \<Rightarrow> jsnum" where
  "js_times NaN _ = NaN"
| "js_times _ NaN = NaN"
| "js_times (Fin a) (Fin b) = Fin (a * b)"
| "js_times a b =
     (if sgn_num a * sgn_num b = 0 then NaN
      else if sgn_num a * sgn_num b < 0 then NegInf else PosInf)"

fun js_minus :: "jsnum \<Rightarrow> jsnum \<Rightarrow> jsnum" where
  "js_minus NaN _ = NaN"
| "js_minus _ NaN = NaN"
| "js_minus (Fin a) (Fin b) = Fin (a - b)"
| "js_minus PosInf PosInf = NaN"
| "js_minus NegInf NegInf = NaN"
| "js_minus PosInf _ = PosInf"
| "js_minus NegInf _ = NegInf"
| "js_minus (Fin _) PosInf = NegInf"
| "js_minus (Fin _) NegInf = PosInf"

fun Math_max :: "jsnum \<Rightarrow> jsnum \<Rightarrow> jsnum" where
  "Math_max NaN _ = NaN"
| "Math_max _ NaN = NaN"
| "Math_max PosInf _ = PosInf"
| "Math_max _ PosInf = PosInf"
| "Math_max NegInf b = b"
| "Math_max a NegInf = a"
| "Math_max (Fin a) (Fin b) = Fin (max a b)"

text \<open>The comparison \<^verbatim>\<open>retryCount >= m\<close> of a counter with a number.\<close>

fun count_ge :: "nat \<Rightarrow> jsnum \<Rightarrow> bool" where
  "count_ge n NaN = False"
| "count_ge n PosInf = False"
| "count_ge n NegInf = True"
| "count_ge n (Fin q) = (q \<le> of_nat n)"

section \<open>Requests, responses and the platform functions\<close>

text \<open>
  The request: only its \<^verbatim>\<open>url\<close> is read and written by the code. The response holds
  the request it answers; \<open>res_headers\<close> is the function \<^verbatim>\<open>response.headers.get\<close>, giving
  \<open>None\<close> for \<^verbatim>\<open>undefined\<close>. The response holds the request as a value: the policy
  rewrites \<^verbatim>\<open>request.url\<close> only after the strategies have read the response, and drops
  the response before the next attempt, so the sharing of the request object is not
  observed.
\<close>

record request =
  url :: string
  requestId :: string

record response =
  status :: int
  res_request :: request
  res_headers :: "string \<Rightarrow> string option"
  bodyAsText :: string

text \<open>
  The parts of a parsed \<^verbatim>\<open>URL\<close> object that the strategy reads.
\<close>

record parsed_url =
  pathname :: string
  search :: string

text \<open>
  The functions of the JavaScript platform that the code calls are parameters of the
  model: \<^verbatim>\<open>Number(value)\<close> on a string, \<^verbatim>\<open>Date.parse\<close>, \<^verbatim>\<open>Date.now()\<close>, and the
  constructor \<^verbatim>\<open>new URL(s)\<close>, which gives \<open>None\<close> where it throws a \<^verbatim>\<open>TypeError\<close>.
\<close>

record runtime =
  rt_Number :: "string \<Rightarrow> jsnum"
  rt_Date_parse :: "string \<Rightarrow> jsnum"
  rt_Date_now :: jsnum
  rt_URL :: "string \<Rightarrow> parsed_url option"

section \<open>roundRobinThrottlingStrategy.ts\<close>

definition RetryAfterHeader :: string where
  "RetryAfterHeader = ''Retry-After''"

definition AllRetryAfterHeaders :: "string list" where
  "AllRetryAfterHeaders = [''retry-after-ms'', ''x-ms-retry-after-ms'', RetryAfterHeader]"

text \<open>
  \<^verbatim>\<open>parseHeaderValueAsNumber\<close>: a missing or empty header value and a value that converts
  to \<^verbatim>\<open>NaN\<close> give \<^verbatim>\<open>undefined\<close>.
\<close>

definition parseHeaderValueAsNumber :: "runtime \<Rightarrow> response \<Rightarrow> string \<Rightarrow> jsnum option" where
  "parseHeaderValueAsNumber rt response headerName =
     (case res_headers response headerName of
        None \<Rightarrow> None
      | Some v \<Rightarrow>
          if v = [] then None
          else (let valueAsNum = rt_Number rt v
                in if isNaN valueAsNum then None else Some valueAsNum))"

text \<open>
  The \<^verbatim>\<open>for\<close> loop of \<^verbatim>\<open>getRetryAfterInMs\<close> over the header names: the first header
  whose parsed value passes \<^verbatim>\<open>retryAfterValue === 0 || retryAfterValue\<close> ends the loop.
\<close>

fun retryAfterLoop :: "runtime \<Rightarrow> response \<Rightarrow> string list \<Rightarrow> jsnum option" where
  "retryAfterLoop rt response [] = None"
| "retryAfterLoop rt response (header # rest) =
     (case parseHeaderValueAsNumber rt response header of
        None \<Rightarrow> retryAfterLoop rt response rest
      | Some retryAfterValue \<Rightarrow>
          if retryAfterValue = Fin 0 \<or> truthy_num retryAfterValue
          then (let multiplyingFactor = (if header = RetryAfterHeader then Fin 1000 else Fin 1)
                in Some (js_times retryAfterValue multiplyingFactor))
          else retryAfterLoop rt response rest)"

text \<open>
  The rest of \<^verbatim>\<open>getRetryAfterInMs\<close>, after the loop: the \<^verbatim>\<open>Retry-After\<close> header read
  as a date. (The \<^verbatim>\<open>try\<close> around the body turns an exception into \<^verbatim>\<open>undefined\<close>; the
  platform functions of the model do not throw.)
\<close>

definition retryAfterDate :: "runtime \<Rightarrow> response \<Rightarrow> jsnum option" where
  "retryAfterDate rt response =
     (case res_headers response RetryAfterHeader of
        None \<Rightarrow> None
      | Some retryAfterHeader \<Rightarrow>
          if retryAfterHeader = [] then None
          else (let date = rt_Date_parse rt retryAfterHeader;
                    diff = js_minus date (rt_Date_now rt)
                in if isFinite diff then Some (Math_max (Fin 0) diff) else None))"

definition getRetryAfterInMs :: "runtime \<Rightarrow> response option \<Rightarrow> jsnum option" where
  "getRetryAfterInMs rt response =
     (case response of
        None \<Rightarrow> None
      | Some r \<Rightarrow>
          if \<not> (status r = 429 \<or> status r = 503) then None
          else (case retryAfterLoop rt r AllRetryAfterHeaders of
                  Some ms \<Rightarrow> Some ms
                | None \<Rightarrow> retryAfterDate rt r))"

definition isThrottlingRetryResponse :: "runtime \<Rightarrow> response option \<Rightarrow> bool" where
  "isThrottlingRetryResponse rt response = Number_isFinite (getRetryAfterInMs rt response)"

text \<open>
  A thrown JavaScript value, as far as the code inspects it: whether it is truthy, its
  \<^verbatim>\<open>name\<close> and \<^verbatim>\<open>message\<close> properties, and the \<^verbatim>\<open>response\<close> property of a
  \<^verbatim>\<open>RestError\<close>.
\<close>

datatype js_error =
  JsError (err_truthy: bool) (err_name: "string option") (err_message: string)
    (err_response: "response option")

definition TypeError :: "string \<Rightarrow> js_error" where
  "TypeError msg = JsError True (Some ''TypeError'') msg None"

text \<open>What a strategy is given (\<^verbatim>\<open>RetryInformation\<close>) and what it answers (\<^verbatim>\<open>RetryModifiers\<close>).
  The policy counts attempts from 0 upwards, so \<open>retryCount\<close> is a natural number.\<close>

record retry_information =
  retryCount :: nat
  ri_response :: "response option"
  responseError :: "js_error option"

record retry_modifiers =
  skipStrategy :: "bool option"
  redirectTo :: "string option"
  retryAfterInMs :: "jsnum option"
  errorToThrow :: "js_error option"

definition no_modifiers :: retry_modifiers where
  "no_modifiers =
     \<lparr>skipStrategy = None, redirectTo = None, retryAfterInMs = None, errorToThrow = None\<rparr>"

text \<open>
  The array read \<^verbatim>\<open>openAiHosts[retryCount % openAiHosts.length + 1]\<close>. A read past the
  end of the array gives \<^verbatim>\<open>undefined\<close>; on the empty array the index is \<^verbatim>\<open>NaN\<close> and the
  read gives \<^verbatim>\<open>undefined\<close> as well.
\<close>

definition backupIndex :: "string list \<Rightarrow> nat \<Rightarrow> nat option" where
  "backupIndex openAiHosts n =
     (if length openAiHosts = 0 then None else Some (n mod length openAiHosts + 1))"

definition backupEndpoint :: "string list \<Rightarrow> nat \<Rightarrow> string option" where
  "backupEndpoint openAiHosts n =
     (case backupIndex openAiHosts n of
        None \<Rightarrow> None
      | Some i \<Rightarrow> if i < length openAiHosts then Some (openAiHosts ! i) else None)"

text \<open>String concatenation turns \<^verbatim>\<open>undefined\<close> into the text \<^verbatim>\<open>undefined\<close>.\<close>

definition js_string :: "string option \<Rightarrow> string" where
  "js_string v = (case v of None \<Rightarrow> ''undefined'' | Some s \<Rightarrow> s)"

text \<open>
  The \<^verbatim>\<open>retry\<close> method of the strategy. A response that passes
  \<^verbatim>\<open>isThrottlingRetryResponse\<close> is defined; the branch for \<open>None\<close> is the
  \<^verbatim>\<open>TypeError\<close> that reading \<^verbatim>\<open>response.request\<close> would raise.
\<close>

definition roundRobin_retry ::
  "runtime \<Rightarrow> string list \<Rightarrow> retry_information \<Rightarrow> js_error + retry_modifiers" where
  "roundRobin_retry rt openAiHosts info =
     (let requestWasThrottled = isThrottlingRetryResponse rt (ri_response info)
      in if \<not> requestWasThrottled then Inr (no_modifiers\<lparr>skipStrategy := Some True\<rparr>)
         else (case ri_response info of
                 None \<Rightarrow> Inl (TypeError ''Cannot read properties of undefined'')
               | Some response \<Rightarrow>
                   (case rt_URL rt (url (res_request response)) of
                      None \<Rightarrow> Inl (TypeError ''Invalid URL'')
                    | Some currentUrl \<Rightarrow>
                        Inr (no_modifiers\<lparr>redirectTo :=
                          Some (js_string (backupEndpoint openAiHosts (retryCount info))
                                @ pathname currentUrl @ search currentUrl)\<rparr>))))"

text \<open>
  A \<^verbatim>\<open>RetryStrategy\<close> object: its name and its \<^verbatim>\<open>retry\<close> method, which may read the
  world (the clock) and may throw.
\<close>

record 'w retry_strategy =
  name :: string
  retry :: "'w \<Rightarrow> retry_information \<Rightarrow> js_error + retry_modifiers"

definition roundRobinThrottlingStrategy ::
  "('w \<Rightarrow> runtime) \<Rightarrow> string list \<Rightarrow> 'w retry_strategy" where
  "roundRobinThrottlingStrategy rt openAiHosts =
     \<lparr>name = ''throttlingRetryStrategy'',
      retry = (\<lambda>w. roundRobin_retry (rt w) openAiHosts)\<rparr>"

section \<open>mockRetry.ts\<close>

definition DEFAULT_RETRY_POLICY_COUNT :: jsnum where
  "DEFAULT_RETRY_POLICY_COUNT = Fin 3"

record retry_policy_options =
  maxRetries :: "jsnum option"

text \<open>The default value of the parameter \<^verbatim>\<open>options\<close>.\<close>

definition default_options :: retry_policy_options where
  "default_options = \<lparr>maxRetries = Some DEFAULT_RETRY_POLICY_COUNT\<rparr>"

definition AbortError :: js_error where
  "AbortError = JsError True (Some ''AbortError'') [] None"

definition NoOutcomeError :: js_error where
  "NoOutcomeError =
     JsError True (Some ''Error'')
       ''Maximum retries reached with no response or error to throw'' None"

text \<open>How one call of \<^verbatim>\<open>next(request)\<close> ends.\<close>

datatype outcome = Resolved response | Rejected js_error

text \<open>
  The world outside the policy, with a state of type \<open>'w\<close>: the transport \<^verbatim>\<open>next\<close>, the
  reading \<^verbatim>\<open>request.abortSignal?.aborted\<close>, and \<^verbatim>\<open>delay(ms, { abortSignal })\<close>, which
  either completes (\<open>None\<close>) or rejects with an error.
\<close>

record 'w env =
  env_next :: "request \<Rightarrow> 'w \<Rightarrow> outcome \<times> 'w"
  env_aborted :: "request \<Rightarrow> 'w \<Rightarrow> bool"
  env_delay :: "jsnum \<Rightarrow> 'w \<Rightarrow> js_error option \<times> 'w"

text \<open>
  What the policy did, in order: each call of the transport with its outcome, each
  strategy whose \<^verbatim>\<open>retry\<close> was called, each delay and each rewrite of the URL.
\<close>

datatype event =
  Sent request outcome | Consulted string | Delayed jsnum | Redirected string

fun is_Sent :: "event \<Rightarrow> bool" where
  "is_Sent (Sent _ _) = True"
| "is_Sent _ = False"

fun is_Consulted :: "event \<Rightarrow> bool" where
  "is_Consulted (Consulted _) = True"
| "is_Consulted _ = False"

definition transport_calls :: "event list \<Rightarrow> event list" where
  "transport_calls tr = filter is_Sent tr"

text \<open>
  \<^verbatim>\<open>createHttpHeaders\<close> of the HTTP library, as far as \<^verbatim>\<open>get\<close> shows it: names are
  compared in lower case, and a later entry of the same name replaces an earlier one.
\<close>

fun lower_char :: "char \<Rightarrow> char" where
  "lower_char (Char b0 b1 b2 b3 b4 b5 b6 b7) =
     (if 65 \<le> (of_char (Char b0 b1 b2 b3 b4 b5 b6 b7) :: nat)
         \<and> (of_char (Char b0 b1 b2 b3 b4 b5 b6 b7) :: nat) \<le> 90
      then Char b0 b1 b2 b3 b4 True b6 b7
      else Char b0 b1 b2 b3 b4 b5 b6 b7)"

definition toLowerCase :: "string \<Rightarrow> string" where
  "toLowerCase s = map lower_char s"

definition createHttpHeaders :: "(string \<times> string) list \<Rightarrow> string \<Rightarrow> string option" where
  "createHttpHeaders raw headerName =
     map_of (rev (map (\<lambda>(k, v). (toLowerCase k, v)) raw)) (toLowerCase headerName)"

text \<open>The response that the policy makes up for the first attempt.\<close>

definition mock_response :: "request \<Rightarrow> response" where
  "mock_response req =
     \<lparr>status = 429, res_request = req,
      res_headers = createHttpHeaders
        [(''Content-Type'', ''text/plain''), (''retry-after-ms'', ''1000'')],
      bodyAsText = ''Too Many Requests''\<rparr>"

text \<open>
  The \<^verbatim>\<open>try\<close>/\<^verbatim>\<open>catch\<close> of one attempt: a thrown value that is falsy or whose name is not
  \<^verbatim>\<open>RestError\<close> is thrown again; otherwise the attempt leaves \<^verbatim>\<open>response\<close> and
  \<^verbatim>\<open>responseError\<close>.
\<close>

datatype captured = Rethrown js_error | Captured "response option" "js_error option"

definition capture :: "outcome \<Rightarrow> captured" where
  "capture out =
     (case out of
        Resolved r \<Rightarrow> Captured (Some r) None
      | Rejected e \<Rightarrow>
          if \<not> err_truthy e \<or> err_name e \<noteq> Some ''RestError'' then Rethrown e
          else Captured (err_response e) (Some e))"

text \<open>The state that the loop carries: the request, the world, and the events so far.\<close>

record 'w state =
  st_request :: request
  st_world :: 'w
  st_trace :: "event list"

text \<open>Attempt 0 calls no transport; every later attempt calls \<^verbatim>\<open>next(request)\<close>.\<close>

definition attempt :: "'w env \<Rightarrow> nat \<Rightarrow> 'w state \<Rightarrow> outcome \<times> 'w state" where
  "attempt env n st =
     (if n = 0 then (Resolved (mock_response (st_request st)), st)
      else (let (out, w') = env_next env (st_request st) (st_world st)
            in (out, st\<lparr>st_world := w', st_trace := st_trace st @ [Sent (st_request st) out]\<rparr>)))"

text \<open>The value of an optional field when it is truthy, and nothing otherwise.\<close>

definition truthy_err :: "js_error option \<Rightarrow> js_error option" where
  "truthy_err v = (case v of Some e \<Rightarrow> if err_truthy e then Some e else None | None \<Rightarrow> None)"

definition truthy_str :: "string option \<Rightarrow> string option" where
  "truthy_str v = (case v of Some u \<Rightarrow> if u \<noteq> [] then Some u else None | None \<Rightarrow> None)"

text \<open>The test \<^verbatim>\<open>retryAfterInMs || retryAfterInMs === 0\<close>.\<close>

definition usable_delay :: "jsnum option \<Rightarrow> jsnum option" where
  "usable_delay v =
     (case v of Some ms \<Rightarrow> if truthy_num ms \<or> ms = Fin 0 then Some ms else None | None \<Rightarrow> None)"

fun truthy_bool :: "bool option \<Rightarrow> bool" where
  "truthy_bool (Some b) = b"
| "truthy_bool None = False"

text \<open>The branch taken when \<^verbatim>\<open>retryCount >= (options.maxRetries ?? 3)\<close>.\<close>

definition maxRetriesReached :: "response option \<Rightarrow> js_error option \<Rightarrow> js_error + response" where
  "maxRetriesReached response respError =
     (case truthy_err respError of
        Some e \<Rightarrow> Inl e
      | None \<Rightarrow> (case response of Some r \<Rightarrow> Inr r | None \<Rightarrow> Inl NoOutcomeError))"

definition ceiling_reached :: "retry_policy_options \<Rightarrow> nat \<Rightarrow> bool" where
  "ceiling_reached options n =
     count_ge n (case maxRetries options of None \<Rightarrow> DEFAULT_RETRY_POLICY_COUNT | Some m \<Rightarrow> m)"

text \<open>
  The ways in which the loop over the strategies is left: an error thrown, a delay, a
  redirect, or the end of the list.
\<close>

datatype verdict = Throw js_error | Wait jsnum | Redirect string | NoVerdict

text \<open>
  What the body of the loop over the strategies does with the modifiers of one strategy:
  \<open>NoVerdict\<close> goes on to the next strategy, whether by \<^verbatim>\<open>continue strategiesLoop\<close> or by
  reaching the end of the body.
\<close>

definition modifiers_verdict :: "retry_modifiers \<Rightarrow> verdict" where
  "modifiers_verdict modifiers =
     (if truthy_bool (skipStrategy modifiers) then NoVerdict
      else (case truthy_err (errorToThrow modifiers) of
              Some e \<Rightarrow> Throw e
            | None \<Rightarrow>
                (case usable_delay (retryAfterInMs modifiers) of
                   Some ms \<Rightarrow> Wait ms
                 | None \<Rightarrow>
                     (case truthy_str (redirectTo modifiers) of
                        Some u \<Rightarrow> Redirect u
                      | None \<Rightarrow> NoVerdict))))"

text \<open>
  The loop over the strategies, up to the point where it leaves: by a thrown error, by a
  delay, by a redirect, or at the end of the list. The second component lists the
  strategies whose \<^verbatim>\<open>retry\<close> was called.
\<close>

fun strategiesLoop ::
  "'w retry_strategy list \<Rightarrow> 'w \<Rightarrow> retry_information \<Rightarrow> verdict \<times> event list" where
  "strategiesLoop [] w info = (NoVerdict, [])"
| "strategiesLoop (strategy # rest) w info =
     (case retry strategy w info of
        Inl e \<Rightarrow> (Throw e, [Consulted (name strategy)])
      | Inr modifiers \<Rightarrow>
          (case modifiers_verdict modifiers of
             NoVerdict \<Rightarrow>
               (let (v, evs) = strategiesLoop rest w info
                in (v, Consulted (name strategy) # evs))
           | v \<Rightarrow> (v, [Consulted (name strategy)])))"

text \<open>
  One pass through the body of \<^verbatim>\<open>retryRequest: while (true)\<close>, for the attempt numbered
  \<open>n\<close> (the value of \<^verbatim>\<open>retryCount\<close> after its increment): the policy either ends, with an
  error thrown (\<open>Inl\<close>) or a response returned (\<open>Inr\<close>), or goes round again.
\<close>

datatype 'w step = Finished "js_error + response" "'w state" | Again "'w state"

definition after_strategies ::
  "'w env \<Rightarrow> response option \<Rightarrow> js_error option \<Rightarrow> verdict \<Rightarrow> 'w state \<Rightarrow> 'w step" where
  "after_strategies env response respError v st =
     (case v of
        Throw e \<Rightarrow> Finished (Inl e) st
      | Wait ms \<Rightarrow>
          (let (r, w') = env_delay env ms (st_world st);
               st' = st\<lparr>st_world := w', st_trace := st_trace st @ [Delayed ms]\<rparr>
           in case r of Some e \<Rightarrow> Finished (Inl e) st' | None \<Rightarrow> Again st')
      | Redirect u \<Rightarrow>
          Again (st\<lparr>st_request := (st_request st)\<lparr>url := u\<rparr>,
                    st_trace := st_trace st @ [Redirected u]\<rparr>)
      | NoVerdict \<Rightarrow>
          (case truthy_err respError of
             Some e \<Rightarrow> Finished (Inl e) st
           | None \<Rightarrow> (case response of Some r \<Rightarrow> Finished (Inr r) st | None \<Rightarrow> Again st)))"

definition attemptStep ::
  "'w env \<Rightarrow> 'w retry_strategy list \<Rightarrow> retry_policy_options \<Rightarrow> nat \<Rightarrow> 'w state \<Rightarrow> 'w step" where
  "attemptStep env strategies options n st =
     (let (out, st1) = attempt env n st
      in case capture out of
           Rethrown e \<Rightarrow> Finished (Inl e) st1
         | Captured response respError \<Rightarrow>
             if env_aborted env (st_request st1) (st_world st1) then Finished (Inl AbortError) st1
             else if ceiling_reached options n
             then Finished (maxRetriesReached response respError) st1
             else (let (v, evs) = strategiesLoop strategies (st_world st1)
                                    \<lparr>retryCount = n, ri_response = response,
                                     responseError = respError\<rparr>
                   in after_strategies env response respError v
                        (st1\<lparr>st_trace := st_trace st1 @ evs\<rparr>)))"

text \<open>
  The loop itself. It has no bound of its own (with \<^verbatim>\<open>maxRetries\<close> infinite or
  \<^verbatim>\<open>NaN\<close> it can run for ever), so the model counts the attempts it may still make:
  \<open>None\<close> means that the loop has not ended within that many attempts.
\<close>

fun retryRequest ::
  "nat \<Rightarrow> 'w env \<Rightarrow> 'w retry_strategy list \<Rightarrow> retry_policy_options \<Rightarrow> nat \<Rightarrow> 'w state
     \<Rightarrow> ((js_error + response) \<times> 'w state) option" where
  "retryRequest 0 env strategies options n st = None"
| "retryRequest (Suc fuel) env strategies options n st =
     (case attemptStep env strategies options n st of
        Finished res st' \<Rightarrow> Some (res, st')
      | Again st' \<Rightarrow> retryRequest fuel env strategies options (Suc n) st')"

text \<open>\<^verbatim>\<open>mockRetryPolicy(strategies, options).sendRequest(request, next)\<close>.\<close>

definition sendRequest ::
  "nat \<Rightarrow> 'w env \<Rightarrow> 'w retry_strategy list \<Rightarrow> retry_policy_options \<Rightarrow> request \<Rightarrow> 'w
     \<Rightarrow> ((js_error + response) \<times> 'w state) option" where
  "sendRequest fuel env strategies options req w =
     retryRequest fuel env strategies options 0
       \<lparr>st_request = req, st_world = w, st_trace = []\<rparr>"

section \<open>Example inputs\<close>

text \<open>
  A platform for the examples. \<open>example_Number\<close> reads a non-empty string of decimal
  digits as the integer it denotes and gives \<^verbatim>\<open>NaN\<close> on the other strings used below
  (which are not numeric literals); the dates and the URL are tabulated. The clock stands
  at 2026-11-02T00:00:00Z.
\<close>

definition digit_of :: "char \<Rightarrow> nat option" where
  "digit_of c =
     (if 48 \<le> (of_char c :: nat) \<and> (of_char c :: nat) \<le> 57
      then Some ((of_char c :: nat) - 48) else None)"

fun decimal_digits :: "nat \<Rightarrow> string \<Rightarrow> nat option" where
  "decimal_digits acc [] = Some acc"
| "decimal_digits acc (c # cs) =
     (case digit_of c of None \<Rightarrow> None | Some d \<Rightarrow> decimal_digits (10 * acc + d) cs)"

definition example_Number :: "string \<Rightarrow> jsnum" where
  "example_Number s =
     (if s = [] then Fin 0
      else (case decimal_digits 0 s of None \<Rightarrow> NaN | Some k \<Rightarrow> Fin (of_nat k)))"

definition future_date :: string where
  "future_date = ''Fri, 21 Oct 2050 07:28:00 GMT''"

definition past_date :: string where
  "past_date = ''Wed, 21 Oct 2015 07:28:00 GMT''"

definition example_Date_parse :: "string \<Rightarrow> jsnum" where
  "example_Date_parse s =
     (if s = future_date then Fin 2549950080000
      else if s = past_date then Fin 1445412480000
      else NaN)"

definition example_url :: string where
  "example_url =
     ''https://example.com/openai/deployments/gpt/chat/completions?api-version=2023-05-15''"

definition example_URL :: "string \<Rightarrow> parsed_url option" where
  "example_URL s =
     (if s = example_url
      then Some \<lparr>pathname = ''/openai/deployments/gpt/chat/completions'',
                 search = ''?api-version=2023-05-15''\<rparr>
      else None)"

definition example_runtime :: runtime where
  "example_runtime =
     \<lparr>rt_Number = example_Number, rt_Date_parse = example_Date_parse,
      rt_Date_now = Fin 1793577600000, rt_URL = example_URL\<rparr>"

definition example_request :: request where
  "example_request = \<lparr>url = example_url, requestId = ''1''\<rparr>"

text \<open>A response to \<open>example_request\<close> with the given status and headers.\<close>

definition example_response :: "int \<Rightarrow> (string \<times> string) list \<Rightarrow> response" where
  "example_response code hs =
     \<lparr>status = code, res_request = example_request, res_headers = createHttpHeaders hs,
      bodyAsText = []\<rparr>"

text \<open>
  Worlds for the examples. The state of the world is the number of transport calls made
  so far; the transport answers by a function of the request and of that number, the
  abort signal is a function of that number, and every delay completes.
\<close>

definition example_env :: "(request \<Rightarrow> nat \<Rightarrow> outcome) \<Rightarrow> (nat \<Rightarrow> bool) \<Rightarrow> nat env" where
  "example_env transport aborted_at =
     \<lparr>env_next = (\<lambda>req w. (transport req w, Suc w)),
      env_aborted = (\<lambda>req w. aborted_at w),
      env_delay = (\<lambda>ms w. (None, w))\<rparr>"

text \<open>A transport that answers 200, the body telling the calls apart.\<close>

definition ok_response :: "request \<Rightarrow> nat \<Rightarrow> response" where
  "ok_response req w =
     \<lparr>status = 200, res_request = req, res_headers = createHttpHeaders [],
      bodyAsText = replicate (Suc w) (CHR ''*'')\<rparr>"

definition ok_transport :: "request \<Rightarrow> nat \<Rightarrow> outcome" where
  "ok_transport req w = Resolved (ok_response req w)"

text \<open>A transport that fails with a \<^verbatim>\<open>RestError\<close> without a response, and one that fails
  with an error of another name.\<close>

definition rest_error :: js_error where
  "rest_error = JsError True (Some ''RestError'') ''connect ECONNREFUSED'' None"

definition fetch_error :: js_error where
  "fetch_error = TypeError ''Failed to fetch''"

definition rest_failing_transport :: "request \<Rightarrow> nat \<Rightarrow> outcome" where
  "rest_failing_transport req w = Rejected rest_error"

definition failing_transport :: "request \<Rightarrow> nat \<Rightarrow> outcome" where
  "failing_transport req w = Rejected fetch_error"

definition never_aborted :: "nat \<Rightarrow> bool" where
  "never_aborted w = False"

text \<open>The signal fires while the first transport call is under way.\<close>

definition aborted_during_first_call :: "nat \<Rightarrow> bool" where
  "aborted_during_first_call w = (1 \<le> w)"

text \<open>A strategy that always asks for a delay of \<open>ms\<close>.\<close>

definition always_wait :: "jsnum \<Rightarrow> 'w retry_strategy" where
  "always_wait ms =
     \<lparr>name = ''alwaysWait'', retry = (\<lambda>w info. Inr (no_modifiers\<lparr>retryAfterInMs := Some ms\<rparr>))\<rparr>"

section \<open>The throttling detector\<close>

lemma js_times_one: "js_times v (Fin 1) = v"
  by (cases v) simp_all

lemma not_NaN_passes: "\<not> isNaN v \<Longrightarrow> v = Fin 0 \<or> truthy_num v"
  by (cases v) auto

lemma parsed_value_passes:
  "parseHeaderValueAsNumber rt r h = Some v \<Longrightarrow> v = Fin 0 \<or> truthy_num v"
  by (auto simp: parseHeaderValueAsNumber_def Let_def dest: not_NaN_passes
           split: option.splits if_splits)

lemma retryAfterLoop_step:
  "retryAfterLoop rt r (h # hs) =
     (case parseHeaderValueAsNumber rt r h of
        None \<Rightarrow> retryAfterLoop rt r hs
      | Some v \<Rightarrow> Some (js_times v (if h = RetryAfterHeader then Fin 1000 else Fin 1)))"
  using parsed_value_passes [of rt r h]
  by (auto split: option.splits)

lemma retryAfterLoop_all:
  "retryAfterLoop rt r AllRetryAfterHeaders =
     (case parseHeaderValueAsNumber rt r ''retry-after-ms'' of
        Some a \<Rightarrow> Some a
      | None \<Rightarrow>
          (case parseHeaderValueAsNumber rt r ''x-ms-retry-after-ms'' of
             Some b \<Rightarrow> Some b
           | None \<Rightarrow>
               (case parseHeaderValueAsNumber rt r ''Retry-After'' of
                  Some c \<Rightarrow> Some (js_times c (Fin 1000))
                | None \<Rightarrow> None)))"
  unfolding AllRetryAfterHeaders_def retryAfterLoop_step
  by (simp add: RetryAfterHeader_def js_times_one split: option.splits)

text \<open>
  With a throttling status, the value is decided by the three headers in their fixed
  order, and by the date reading of \<^verbatim>\<open>Retry-After\<close> when none of them gives a number.
\<close>

lemma getRetryAfterInMs_throttling_status:
  assumes "status r = 429 \<or> status r = 503"
  shows "getRetryAfterInMs rt (Some r) =
     (case parseHeaderValueAsNumber rt r ''retry-after-ms'' of
        Some a \<Rightarrow> Some a
      | None \<Rightarrow>
          (case parseHeaderValueAsNumber rt r ''x-ms-retry-after-ms'' of
             Some b \<Rightarrow> Some b
           | None \<Rightarrow>
               (case parseHeaderValueAsNumber rt r ''Retry-After'' of
                  Some c \<Rightarrow> Some (js_times c (Fin 1000))
                | None \<Rightarrow> retryAfterDate rt r)))"
  using assms unfolding getRetryAfterInMs_def retryAfterLoop_all
  by (auto split: option.splits)

lemma date_delta_cases:
  "isFinite (js_minus a b) \<Longrightarrow> \<exists>q. Math_max (Fin 0) (js_minus a b) = Fin q \<and> 0 \<le> q"
  by (cases a; cases b) simp_all

lemmas ex_simps = example_runtime_def example_response_def example_Number_def digit_of_def
  example_Date_parse_def createHttpHeaders_def toLowerCase_def future_date_def past_date_def
  parseHeaderValueAsNumber_def retryAfterDate_def RetryAfterHeader_def AllRetryAfterHeaders_def

text \<open>
  Claim C1, as amended. For every response whose status is 429 or 503 and for which none
  of the headers \<^verbatim>\<open>retry-after-ms\<close>, \<^verbatim>\<open>x-ms-retry-after-ms\<close>, \<^verbatim>\<open>Retry-After\<close> gives a
  value (neither as a number nor, for \<^verbatim>\<open>Retry-After\<close>, as a date),
  \<^verbatim>\<open>getRetryAfterInMs\<close> returns \<^verbatim>\<open>undefined\<close> and \<^verbatim>\<open>isThrottlingRetryResponse\<close> returns
  false: the status alone does not make a response a throttling response.
\<close>

theorem no_valid_header_not_throttled:
  assumes "status r = 429 \<or> status r = 503"
    and "\<forall>h \<in> set AllRetryAfterHeaders. parseHeaderValueAsNumber rt r h = None"
    and "retryAfterDate rt r = None"
  shows "getRetryAfterInMs rt (Some r) = None \<and> \<not> isThrottlingRetryResponse rt (Some r)"
proof -
  from assms(2) have "parseHeaderValueAsNumber rt r ''retry-after-ms'' = None"
    "parseHeaderValueAsNumber rt r ''x-ms-retry-after-ms'' = None"
    "parseHeaderValueAsNumber rt r ''Retry-After'' = None"
    by (simp_all add: AllRetryAfterHeaders_def RetryAfterHeader_def)
  with assms(1,3) have "getRetryAfterInMs rt (Some r) = None"
    by (simp add: getRetryAfterInMs_throttling_status)
  then show ?thesis by (simp add: isThrottlingRetryResponse_def)
qed

theorem no_valid_header_not_throttled_witness:
  "getRetryAfterInMs example_runtime (Some (example_response 503 [(''retry-after-ms'', ''soon'')])) = None
   \<and> \<not> isThrottlingRetryResponse example_runtime
         (Some (example_response 503 [(''retry-after-ms'', ''soon'')]))"
  using no_valid_header_not_throttled
    [of "example_response 503 [(''retry-after-ms'', ''soon'')]" example_runtime]
  by (simp add: ex_simps)

text \<open>
  Claim C1 as stated asks for \<^verbatim>\<open>isThrottlingRetryResponse\<close> to be true there. A 429
  response without any header is not a throttling response.
\<close>

theorem unthrottled_without_header_counterexample:
  "status (example_response 429 []) = 429
   \<and> parseHeaderValueAsNumber example_runtime (example_response 429 []) ''retry-after-ms'' = None
   \<and> parseHeaderValueAsNumber example_runtime (example_response 429 []) ''x-ms-retry-after-ms'' = None
   \<and> parseHeaderValueAsNumber example_runtime (example_response 429 []) ''Retry-After'' = None
   \<and> retryAfterDate example_runtime (example_response 429 []) = None
   \<and> getRetryAfterInMs example_runtime (Some (example_response 429 [])) = None
   \<and> isThrottlingRetryResponse example_runtime (Some (example_response 429 [])) \<noteq> True"
  by (simp add: ex_simps isThrottlingRetryResponse_def getRetryAfterInMs_def)

text \<open>
  Claim C5. With a throttling status the headers are read in the order
  \<^verbatim>\<open>retry-after-ms\<close>, \<^verbatim>\<open>x-ms-retry-after-ms\<close>, \<^verbatim>\<open>Retry-After\<close>; the first one that gives a
  number decides, and only the value of \<^verbatim>\<open>Retry-After\<close> is multiplied by 1000. In
  particular a response with \<^verbatim>\<open>retry-after-ms: 500\<close> and \<^verbatim>\<open>Retry-After: 2\<close> resolves to
  500 milliseconds.
\<close>

theorem header_precedence:
  assumes "status r = 429 \<or> status r = 503"
  shows "getRetryAfterInMs rt (Some r) =
           (case parseHeaderValueAsNumber rt r ''retry-after-ms'' of
              Some a \<Rightarrow> Some a
            | None \<Rightarrow>
                (case parseHeaderValueAsNumber rt r ''x-ms-retry-after-ms'' of
                   Some b \<Rightarrow> Some b
                 | None \<Rightarrow>
                     (case parseHeaderValueAsNumber rt r ''Retry-After'' of
                        Some c \<Rightarrow> Some (js_times c (Fin 1000))
                      | None \<Rightarrow> retryAfterDate rt r)))
         \<and> (res_headers r ''retry-after-ms'' = Some ''500'' \<and> rt_Number rt ''500'' = Fin 500
              \<and> res_headers r ''Retry-After'' = Some ''2''
            \<longrightarrow> getRetryAfterInMs rt (Some r) = Some (Fin 500))"
proof (intro conjI impI)
  show ordered: "getRetryAfterInMs rt (Some r) =
           (case parseHeaderValueAsNumber rt r ''retry-after-ms'' of
              Some a \<Rightarrow> Some a
            | None \<Rightarrow>
                (case parseHeaderValueAsNumber rt r ''x-ms-retry-after-ms'' of
                   Some b \<Rightarrow> Some b
                 | None \<Rightarrow>
                     (case parseHeaderValueAsNumber rt r ''Retry-After'' of
                        Some c \<Rightarrow> Some (js_times c (Fin 1000))
                      | None \<Rightarrow> retryAfterDate rt r)))"
    using assms by (rule getRetryAfterInMs_throttling_status)
  assume h: "res_headers r ''retry-after-ms'' = Some ''500'' \<and> rt_Number rt ''500'' = Fin 500
              \<and> res_headers r ''Retry-After'' = Some ''2''"
  then have "parseHeaderValueAsNumber rt r ''retry-after-ms'' = Some (Fin 500)"
    by (simp add: parseHeaderValueAsNumber_def)
  then show "getRetryAfterInMs rt (Some r) = Some (Fin 500)"
    by (simp add: ordered)
qed

theorem header_precedence_witness:
  "getRetryAfterInMs example_runtime
     (Some (example_response 429 [(''retry-after-ms'', ''500''), (''Retry-After'', ''2'')]))
   = Some (Fin 500)
   \<and> getRetryAfterInMs example_runtime (Some (example_response 429 [(''Retry-After'', ''2'')]))
     = Some (Fin 2000)"
  using header_precedence
    [of "example_response 429 [(''retry-after-ms'', ''500''), (''Retry-After'', ''2'')]"
        example_runtime]
    header_precedence [of "example_response 429 [(''Retry-After'', ''2'')]" example_runtime]
  by (simp add: ex_simps)

text \<open>
  Claim C8. For a response with a throttling status whose \<^verbatim>\<open>Retry-After\<close> value does not
  give a number, the two millisecond headers decide first; when they give no value, the
  \<^verbatim>\<open>Retry-After\<close> value is read as a date and the result is \<^verbatim>\<open>Math.max(0, date - now)\<close>
  when that difference is finite and \<^verbatim>\<open>undefined\<close> otherwise (as for an empty value): a
  date in the future gives the positive difference, a date that is not in the future
  gives exactly 0, and the result is never negative.
\<close>

theorem retry_after_http_date:
  assumes "status r = 429 \<or> status r = 503"
    and "res_headers r ''Retry-After'' = Some v"
    and "parseHeaderValueAsNumber rt r ''Retry-After'' = None"
  shows "getRetryAfterInMs rt (Some r) =
           (case parseHeaderValueAsNumber rt r ''retry-after-ms'' of
              Some a \<Rightarrow> Some a
            | None \<Rightarrow>
                (case parseHeaderValueAsNumber rt r ''x-ms-retry-after-ms'' of
                   Some b \<Rightarrow> Some b
                 | None \<Rightarrow>
                     if v \<noteq> [] \<and> isFinite (js_minus (rt_Date_parse rt v) (rt_Date_now rt))
                     then Some (Math_max (Fin 0) (js_minus (rt_Date_parse rt v) (rt_Date_now rt)))
                     else None))
         \<and> (parseHeaderValueAsNumber rt r ''retry-after-ms'' = None
              \<and> parseHeaderValueAsNumber rt r ''x-ms-retry-after-ms'' = None
            \<longrightarrow> (\<forall>d n. v \<noteq> [] \<and> rt_Date_parse rt v = Fin d \<and> rt_Date_now rt = Fin n \<and> n < d
                    \<longrightarrow> getRetryAfterInMs rt (Some r) = Some (Fin (d - n)) \<and> 0 < d - n)
              \<and> (\<forall>d n. v \<noteq> [] \<and> rt_Date_parse rt v = Fin d \<and> rt_Date_now rt = Fin n \<and> d \<le> n
                    \<longrightarrow> getRetryAfterInMs rt (Some r) = Some (Fin 0))
              \<and> (\<not> isFinite (js_minus (rt_Date_parse rt v) (rt_Date_now rt))
                    \<longrightarrow> getRetryAfterInMs rt (Some r) = None)
              \<and> (\<forall>x. getRetryAfterInMs rt (Some r) = Some x \<longrightarrow> (\<exists>q. x = Fin q \<and> 0 \<le> q)))"
proof -
  let ?diff = "js_minus (rt_Date_parse rt v) (rt_Date_now rt)"
  let ?date = "if v \<noteq> [] \<and> isFinite ?diff then Some (Math_max (Fin 0) ?diff) else None"
  have date: "retryAfterDate rt r = ?date"
    using assms(2) by (simp add: retryAfterDate_def RetryAfterHeader_def)
  have eq: "getRetryAfterInMs rt (Some r) =
           (case parseHeaderValueAsNumber rt r ''retry-after-ms'' of
              Some a \<Rightarrow> Some a
            | None \<Rightarrow>
                (case parseHeaderValueAsNumber rt r ''x-ms-retry-after-ms'' of
                   Some b \<Rightarrow> Some b
                 | None \<Rightarrow> ?date))"
    unfolding getRetryAfterInMs_throttling_status [OF assms(1)] assms(3) date
    by (simp split: option.splits)
  have last: "getRetryAfterInMs rt (Some r) = ?date"
    if "parseHeaderValueAsNumber rt r ''retry-after-ms'' = None"
      and "parseHeaderValueAsNumber rt r ''x-ms-retry-after-ms'' = None"
    using that by (simp add: eq)
  have nonneg: "\<exists>q. x = Fin q \<and> 0 \<le> q" if "?date = Some x" for x
    using that date_delta_cases [of "rt_Date_parse rt v" "rt_Date_now rt"]
    by (auto split: if_splits)
  show ?thesis
  proof (intro conjI impI allI)
    show "getRetryAfterInMs rt (Some r) =
           (case parseHeaderValueAsNumber rt r ''retry-after-ms'' of
              Some a \<Rightarrow> Some a
            | None \<Rightarrow>
                (case parseHeaderValueAsNumber rt r ''x-ms-retry-after-ms'' of
                   Some b \<Rightarrow> Some b
                 | None \<Rightarrow> ?date))"
      by (rule eq)
  qed (use last nonneg in \<open>auto simp: max_def\<close>)
qed

theorem retry_after_http_date_witness:
  "getRetryAfterInMs example_runtime (Some (example_response 429 [(''Retry-After'', future_date)]))
     = Some (Fin 756372480000)
   \<and> getRetryAfterInMs example_runtime (Some (example_response 503 [(''Retry-After'', past_date)]))
     = Some (Fin 0)"
proof -
  let ?f = "example_response 429 [(''Retry-After'', future_date)]"
  let ?p = "example_response 503 [(''Retry-After'', past_date)]"
  have f: "status ?f = 429 \<or> status ?f = 503"
    "res_headers ?f ''Retry-After'' = Some future_date"
    "parseHeaderValueAsNumber example_runtime ?f ''Retry-After'' = None"
    by (simp_all add: ex_simps)
  have p: "status ?p = 429 \<or> status ?p = 503"
    "res_headers ?p ''Retry-After'' = Some past_date"
    "parseHeaderValueAsNumber example_runtime ?p ''Retry-After'' = None"
    by (simp_all add: ex_simps)
  have "getRetryAfterInMs example_runtime (Some ?f) = Some (Fin (2549950080000 - 1793577600000))"
    using retry_after_http_date [OF f, THEN conjunct1]
    by (simp add: ex_simps)
  moreover have "getRetryAfterInMs example_runtime (Some ?p) = Some (Fin 0)"
    using retry_after_http_date [OF p, THEN conjunct1]
    by (simp add: ex_simps)
  ultimately show ?thesis by simp
qed

section \<open>The rotation strategy\<close>

lemma backupIndex_positive: "backupIndex hosts k \<noteq> Some 0"
  by (simp add: backupIndex_def)

lemma backupEndpoint_Some:
  "backupEndpoint hosts k = Some h \<Longrightarrow> \<exists>i. 1 \<le> i \<and> i < length hosts \<and> h = hosts ! i"
  by (auto simp: backupEndpoint_def backupIndex_def split: if_splits)

lemma roundRobin_retry_throttled:
  assumes "isThrottlingRetryResponse rt (Some r)" and "rt_URL rt (url (res_request r)) = Some u"
  shows "roundRobin_retry rt hosts \<lparr>retryCount = k, ri_response = Some r, responseError = e\<rparr> =
           Inr (no_modifiers\<lparr>redirectTo :=
                  Some (js_string (backupEndpoint hosts k) @ pathname u @ search u)\<rparr>)"
  using assms by (simp add: roundRobin_retry_def)

lemmas strategy_simps = isThrottlingRetryResponse_def getRetryAfterInMs_def
  roundRobin_retry_def backupEndpoint_def backupIndex_def js_string_def no_modifiers_def
  example_URL_def example_request_def example_url_def

text \<open>
  Claim C9. For a list of \<open>n \<ge> 1\<close> endpoints and a \<open>retryCount\<close> with
  \<open>retryCount mod n = n - 1\<close> the strategy reads index \<open>n\<close>, past the end of the list; the
  base of the redirect is \<^verbatim>\<open>undefined\<close> and the redirect URL starts with the text
  \<^verbatim>\<open>undefined\<close>. The index read is never 0 for any \<open>retryCount\<close>, so an endpoint that the
  strategy selects is always taken from a position after the first.
\<close>

theorem rotation_reads_past_the_end:
  assumes "length hosts = n" and "1 \<le> n" and "k mod n = n - 1"
  shows "backupIndex hosts k = Some n \<and> backupEndpoint hosts k = None
         \<and> (\<forall>rt r u e. isThrottlingRetryResponse rt (Some r)
                \<and> rt_URL rt (url (res_request r)) = Some u
              \<longrightarrow> roundRobin_retry rt hosts
                    \<lparr>retryCount = k, ri_response = Some r, responseError = e\<rparr> =
                  Inr (no_modifiers\<lparr>redirectTo :=
                         Some (''undefined'' @ pathname u @ search u)\<rparr>))
         \<and> (\<forall>j. backupIndex hosts j \<noteq> Some 0)
         \<and> (\<forall>j h. backupEndpoint hosts j = Some h
                \<longrightarrow> (\<exists>i. 1 \<le> i \<and> i < length hosts \<and> h = hosts ! i))"
proof -
  have idx: "backupIndex hosts k = Some n"
    using assms by (simp add: backupIndex_def)
  then have none: "backupEndpoint hosts k = None"
    using assms(1) by (simp add: backupEndpoint_def)
  have "roundRobin_retry rt hosts \<lparr>retryCount = k, ri_response = Some r, responseError = e\<rparr> =
             Inr (no_modifiers\<lparr>redirectTo := Some (''undefined'' @ pathname u @ search u)\<rparr>)"
    if "isThrottlingRetryResponse rt (Some r)" and "rt_URL rt (url (res_request r)) = Some u"
    for rt r u e
    using roundRobin_retry_throttled [OF that, of hosts k e] none
    by (simp add: js_string_def)
  with idx none show ?thesis
    using backupIndex_positive backupEndpoint_Some by blast
qed

theorem rotation_reads_past_the_end_witness:
  "roundRobin_retry example_runtime [''https://a.example'', ''https://b.example'']
     \<lparr>retryCount = 3, ri_response = Some (example_response 429 [(''retry-after-ms'', ''1000'')]),
      responseError = None\<rparr>
   = Inr (no_modifiers\<lparr>redirectTo :=
        Some ''undefined/openai/deployments/gpt/chat/completions?api-version=2023-05-15''\<rparr>)"
proof -
  let ?r = "example_response 429 [(''retry-after-ms'', ''1000'')]"
  let ?hosts = "[''https://a.example'', ''https://b.example'']"
  let ?u = "\<lparr>pathname = ''/openai/deployments/gpt/chat/completions'',
             search = ''?api-version=2023-05-15''\<rparr>"
  have h: "length ?hosts = 2" "(1::nat) \<le> 2" "(3::nat) mod 2 = 2 - 1"
    by simp_all
  have t: "isThrottlingRetryResponse example_runtime (Some ?r)
           \<and> rt_URL example_runtime (url (res_request ?r)) = Some ?u"
    by (simp add: ex_simps strategy_simps)
  have "roundRobin_retry example_runtime ?hosts
          \<lparr>retryCount = 3, ri_response = Some ?r, responseError = None\<rparr> =
        Inr (no_modifiers\<lparr>redirectTo := Some (''undefined'' @ pathname ?u @ search ?u)\<rparr>)"
    using rotation_reads_past_the_end [OF h] t by blast
  then show ?thesis by simp
qed

text \<open>
  Claim C2. With the endpoints \<open>[A, B]\<close> and a throttled response, the strategy at
  \<open>retryCount = 1\<close> reads index 2 and redirects to \<^verbatim>\<open>undefined\<close> followed by the path and
  the query of the request, not to \<open>B\<close>; at \<open>retryCount = 0\<close> it redirects to \<open>B\<close> followed
  by the path and the query.
\<close>

theorem second_rotation_is_undefined:
  "roundRobin_retry example_runtime [''https://a.example'', ''https://b.example'']
     \<lparr>retryCount = 1, ri_response = Some (example_response 429 [(''retry-after-ms'', ''1000'')]),
      responseError = None\<rparr>
   = Inr (no_modifiers\<lparr>redirectTo :=
        Some ''undefined/openai/deployments/gpt/chat/completions?api-version=2023-05-15''\<rparr>)
   \<and> roundRobin_retry example_runtime [''https://a.example'', ''https://b.example'']
     \<lparr>retryCount = 0, ri_response = Some (example_response 429 [(''retry-after-ms'', ''1000'')]),
      responseError = None\<rparr>
   = Inr (no_modifiers\<lparr>redirectTo :=
        Some ''https://b.example/openai/deployments/gpt/chat/completions?api-version=2023-05-15''\<rparr>)"
  by (simp add: ex_simps strategy_simps)

section \<open>The retry policy\<close>

lemma attempt_first: "attempt env 0 st = (Resolved (mock_response (st_request st)), st)"
  by (simp add: attempt_def)

lemma attempt_later:
  assumes "0 < n" and "env_next env (st_request st) (st_world st) = (out, w')"
  shows "attempt env n st =
           (out, st\<lparr>st_world := w', st_trace := st_trace st @ [Sent (st_request st) out]\<rparr>)"
  using assms by (simp add: attempt_def)

lemma attempt_request: "attempt env n st = (out, st1) \<Longrightarrow> st_request st1 = st_request st"
  by (auto simp: attempt_def Let_def split: if_splits prod.splits)

lemma attempt_consulted:
  "attempt env n st = (out, st1) \<Longrightarrow>
     filter is_Consulted (st_trace st1) = filter is_Consulted (st_trace st)"
  by (auto simp: attempt_def Let_def split: if_splits prod.splits)

lemma attempt_transport_calls:
  "attempt env n st = (out, st1) \<Longrightarrow>
     transport_calls (st_trace st1) =
       transport_calls (st_trace st) @ (if n = 0 then [] else [Sent (st_request st) out])"
  by (auto simp: attempt_def Let_def transport_calls_def split: if_splits prod.splits)


lemma attemptStep_wait:
  assumes "attempt env n st = (out, st1)"
    and "capture out = Captured response respError"
    and "\<not> env_aborted env (st_request st1) (st_world st1)"
    and "\<not> ceiling_reached options n"
    and "retry s (st_world st1)
           \<lparr>retryCount = n, ri_response = response, responseError = respError\<rparr> = Inr m"
    and "modifiers_verdict m = Wait ms"
    and "env_delay env ms (st_world st1) = (None, w2)"
  shows "attemptStep env (s # rest) options n st =
           Again (st1\<lparr>st_world := w2,
                     st_trace := st_trace st1 @ [Consulted (name s), Delayed ms]\<rparr>)"
  using assms by (simp add: attemptStep_def after_strategies_def)

lemma transport_calls_strategy_events [simp]:
  "transport_calls (tr @ [Consulted a, Delayed ms]) = transport_calls tr"
  by (simp add: transport_calls_def)

lemma waiting_attempt:
  assumes "\<forall>req w. \<exists>resp w'. env_next env req w = (Resolved resp, w')"
    and "\<forall>req w. \<not> env_aborted env req w"
    and "\<forall>d w. fst (env_delay env d w) = None"
    and "\<forall>w info. \<exists>m. retry s w info = Inr m \<and> modifiers_verdict m = Wait ms"
    and "\<not> ceiling_reached options n"
  shows "\<exists>st' calls. attemptStep env [s] options n st = Again st'
           \<and> st_request st' = st_request st
           \<and> transport_calls (st_trace st') = transport_calls (st_trace st) @ calls
           \<and> length calls = (if n = 0 then 0 else 1)"
proof -
  obtain out st1 where att: "attempt env n st = (out, st1)"
    by (cases "attempt env n st")
  have "\<exists>resp. out = Resolved resp"
  proof (cases "n = 0")
    case True
    with att show ?thesis by (auto simp: attempt_def)
  next
    case False
    from assms(1) obtain resp w' where
      "env_next env (st_request st) (st_world st) = (Resolved resp, w')" by blast
    with att False show ?thesis by (auto simp: attempt_def)
  qed
  then obtain resp where cap: "capture out = Captured (Some resp) None"
    by (auto simp: capture_def)
  from assms(4) obtain m where m:
    "retry s (st_world st1)
       \<lparr>retryCount = n, ri_response = Some resp, responseError = None\<rparr> = Inr m"
    "modifiers_verdict m = Wait ms"
    by blast
  obtain w2 where d: "env_delay env ms (st_world st1) = (None, w2)"
    using assms(3) by (metis fst_conv surj_pair)
  have "attemptStep env [s] options n st =
          Again (st1\<lparr>st_world := w2,
                    st_trace := st_trace st1 @ [Consulted (name s), Delayed ms]\<rparr>)"
    using att cap assms(2,5) m d by (intro attemptStep_wait) auto
  then show ?thesis
    using attempt_request [OF att] attempt_transport_calls [OF att] by simp
qed

lemma final_attempt:
  assumes "\<forall>req w. \<exists>resp w'. env_next env req w = (Resolved resp, w')"
    and "\<forall>req w. \<not> env_aborted env req w"
    and "0 < n" and "ceiling_reached options n"
  shows "\<exists>resp st'. attemptStep env strategies options n st = Finished (Inr resp) st'
           \<and> st_request st' = st_request st
           \<and> transport_calls (st_trace st') =
               transport_calls (st_trace st) @ [Sent (st_request st) (Resolved resp)]"
proof -
  from assms(1) obtain resp w' where
    nxt: "env_next env (st_request st) (st_world st) = (Resolved resp, w')" by blast
  have "attemptStep env strategies options n st =
          Finished (Inr resp)
            (st\<lparr>st_world := w',
                st_trace := st_trace st @ [Sent (st_request st) (Resolved resp)]\<rparr>)"
    using assms(2,4)
    by (simp add: attemptStep_def attempt_later [OF assms(3) nxt] capture_def
          maxRetriesReached_def truthy_err_def)
  then show ?thesis by (simp add: transport_calls_def)
qed

lemma ceiling_three: "ceiling_reached \<lparr>maxRetries = Some (Fin 3)\<rparr> n \<longleftrightarrow> 3 \<le> n"
  by (simp add: ceiling_reached_def)

lemma fuel_four: "4 \<le> fuel \<Longrightarrow> \<exists>k. fuel = Suc (Suc (Suc (Suc k)))"
  by (rule exI [of _ "fuel - 4"]) simp

lemmas env_simps = example_env_def ok_transport_def failing_transport_def
  rest_failing_transport_def never_aborted_def aborted_during_first_call_def always_wait_def

lemmas policy_simps = sendRequest_def attemptStep_def attempt_def capture_def
  after_strategies_def modifiers_verdict_def usable_delay_def truthy_err_def truthy_str_def
  maxRetriesReached_def ceiling_reached_def default_options_def DEFAULT_RETRY_POLICY_COUNT_def
  no_modifiers_def

text \<open>
  Claim C10. When the transport throws a value that is falsy or whose name is not
  \<^verbatim>\<open>RestError\<close>, the policy ends at once with that value thrown, whatever the abort
  signal, the options and the strategies are: nothing is added to the events after the
  transport call itself.
\<close>

theorem non_rest_error_rethrown:
  assumes "0 < n"
    and "env_next env (st_request st) (st_world st) = (Rejected e, w')"
    and "\<not> err_truthy e \<or> err_name e \<noteq> Some ''RestError''"
  shows "retryRequest (Suc fuel) env strategies options n st =
           Some (Inl e, st\<lparr>st_world := w',
                           st_trace := st_trace st @ [Sent (st_request st) (Rejected e)]\<rparr>)"
  using assms(3) by (auto simp: attemptStep_def attempt_later [OF assms(1,2)] capture_def)

theorem non_rest_error_rethrown_witness:
  "retryRequest 1 (example_env failing_transport aborted_during_first_call)
     [always_wait (Fin 10)] default_options 1
     \<lparr>st_request = example_request, st_world = 0, st_trace = []\<rparr> =
     Some (Inl fetch_error,
           \<lparr>st_request = example_request, st_world = 1,
            st_trace = [Sent example_request (Rejected fetch_error)]\<rparr>)"
proof -
  let ?env = "example_env failing_transport aborted_during_first_call"
  let ?st = "\<lparr>st_request = example_request, st_world = 0::nat, st_trace = []\<rparr>"
  have h: "(0::nat) < 1"
    "env_next ?env (st_request ?st) (st_world ?st) = (Rejected fetch_error, 1)"
    "\<not> err_truthy fetch_error \<or> err_name fetch_error \<noteq> Some ''RestError''"
    by (simp_all add: env_simps fetch_error_def TypeError_def)
  show ?thesis
    using non_rest_error_rethrown [OF h, of 0 "[always_wait (Fin 10)]" default_options]
    by simp
qed

text \<open>
  Claim C6, as amended. When an attempt has produced a response or a \<^verbatim>\<open>RestError\<close> and
  the abort signal is set at that point, the policy ends with an \<^verbatim>\<open>AbortError\<close>; no
  strategy has been called for that attempt and no transport call follows the attempt's
  own. (A thrown value that is not a \<^verbatim>\<open>RestError\<close> is thrown again before the signal is
  read.)
\<close>

theorem abort_after_attempt:
  assumes "attempt env n st = (out, st1)"
    and "(\<exists>r. out = Resolved r)
         \<or> (\<exists>e. out = Rejected e \<and> err_truthy e \<and> err_name e = Some ''RestError'')"
    and "env_aborted env (st_request st1) (st_world st1)"
  shows "retryRequest (Suc fuel) env strategies options n st = Some (Inl AbortError, st1)
         \<and> filter is_Consulted (st_trace st1) = filter is_Consulted (st_trace st)
         \<and> transport_calls (st_trace st1) =
             transport_calls (st_trace st) @ (if n = 0 then [] else [Sent (st_request st) out])"
proof -
  from assms(2) obtain response respError where "capture out = Captured response respError"
    by (auto simp: capture_def)
  with assms(1,3) have "attemptStep env strategies options n st = Finished (Inl AbortError) st1"
    by (simp add: attemptStep_def)
  then show ?thesis
    using attempt_consulted [OF assms(1)] attempt_transport_calls [OF assms(1)] by simp
qed

theorem abort_after_attempt_witness:
  "retryRequest 1 (example_env ok_transport aborted_during_first_call) [always_wait (Fin 10)]
     default_options 1 \<lparr>st_request = example_request, st_world = 0, st_trace = []\<rparr> =
     Some (Inl AbortError,
           \<lparr>st_request = example_request, st_world = 1,
            st_trace = [Sent example_request (Resolved (ok_response example_request 0))]\<rparr>)
   \<and> retryRequest 1 (example_env rest_failing_transport aborted_during_first_call)
       [always_wait (Fin 10)] default_options 1
       \<lparr>st_request = example_request, st_world = 0, st_trace = []\<rparr> =
     Some (Inl AbortError,
           \<lparr>st_request = example_request, st_world = 1,
            st_trace = [Sent example_request (Rejected rest_error)]\<rparr>)"
proof -
  let ?st = "\<lparr>st_request = example_request, st_world = 0::nat, st_trace = []\<rparr>"
  let ?ok = "example_env ok_transport aborted_during_first_call"
  let ?st_ok = "\<lparr>st_request = example_request, st_world = 1::nat,
                 st_trace = [Sent example_request (Resolved (ok_response example_request 0))]\<rparr>"
  let ?bad = "example_env rest_failing_transport aborted_during_first_call"
  let ?st_bad = "\<lparr>st_request = example_request, st_world = 1::nat,
                  st_trace = [Sent example_request (Rejected rest_error)]\<rparr>"
  have ok: "attempt ?ok 1 ?st = (Resolved (ok_response example_request 0), ?st_ok)"
    "(\<exists>r. Resolved (ok_response example_request 0) = Resolved r)
     \<or> (\<exists>e. Resolved (ok_response example_request 0) = Rejected e \<and> err_truthy e
            \<and> err_name e = Some ''RestError'')"
    "env_aborted ?ok (st_request ?st_ok) (st_world ?st_ok)"
    by (simp_all add: attempt_def env_simps)
  have bad: "attempt ?bad 1 ?st = (Rejected rest_error, ?st_bad)"
    "(\<exists>r. Rejected rest_error = Resolved r)
     \<or> (\<exists>e. Rejected rest_error = Rejected e \<and> err_truthy e \<and> err_name e = Some ''RestError'')"
    "env_aborted ?bad (st_request ?st_bad) (st_world ?st_bad)"
    by (simp_all add: attempt_def env_simps rest_error_def)
  show ?thesis
    using abort_after_attempt [OF ok, of 0 "[always_wait (Fin 10)]" default_options]
      abort_after_attempt [OF bad, of 0 "[always_wait (Fin 10)]" default_options]
    by simp
qed

text \<open>
  Claim C6 as stated covers every error of the transport. Here the signal fires during
  the first transport call, the transport fails with a \<^verbatim>\<open>TypeError\<close>, and the policy
  ends with that \<^verbatim>\<open>TypeError\<close>, not with an \<^verbatim>\<open>AbortError\<close>.
\<close>

theorem abort_check_bypassed_counterexample:
  "sendRequest 4 (example_env failing_transport aborted_during_first_call)
     [always_wait (Fin 10)] default_options example_request 0 =
     Some (Inl fetch_error,
           \<lparr>st_request = example_request, st_world = 1,
            st_trace = [Consulted ''alwaysWait'', Delayed (Fin 10),
                        Sent example_request (Rejected fetch_error)]\<rparr>)
   \<and> env_aborted (example_env failing_transport aborted_during_first_call) example_request 1
   \<and> fetch_error \<noteq> AbortError"
  by (simp add: eval_nat_numeral policy_simps env_simps fetch_error_def TypeError_def
        AbortError_def)

text \<open>
  Claim C7. When an attempt has produced a response or a \<^verbatim>\<open>RestError\<close>, the signal is
  not set and \<open>retryCount\<close> has reached the ceiling, the policy ends with the result of
  the ceiling branch: the captured error is thrown if there is one, else the response is
  returned if there is one, else the error \<^verbatim>\<open>Maximum retries reached with no response or
  error to throw\<close> is thrown. No strategy is called for that attempt.
\<close>

theorem ceiling_precedence:
  assumes "attempt env n st = (out, st1)"
    and "capture out = Captured response respError"
    and "\<not> env_aborted env (st_request st1) (st_world st1)"
    and "ceiling_reached options n"
  shows "retryRequest (Suc fuel) env strategies options n st =
           Some (maxRetriesReached response respError, st1)
         \<and> (\<forall>resp e. err_truthy e \<longrightarrow> maxRetriesReached resp (Some e) = Inl e)
         \<and> (\<forall>r. maxRetriesReached (Some r) None = Inr r)
         \<and> maxRetriesReached None None = Inl NoOutcomeError
         \<and> (\<forall>e. respError = Some e \<longrightarrow> err_truthy e)
         \<and> filter is_Consulted (st_trace st1) = filter is_Consulted (st_trace st)"
proof -
  have step: "attemptStep env strategies options n st =
                Finished (maxRetriesReached response respError) st1"
    using assms by (simp add: attemptStep_def)
  have truthy: "err_truthy e" if "respError = Some e" for e
    using that assms(2) by (auto simp: capture_def split: outcome.splits if_splits)
  show ?thesis
    using step truthy attempt_consulted [OF assms(1)]
    by (auto simp: maxRetriesReached_def truthy_err_def)
qed

theorem ceiling_precedence_witness:
  "retryRequest 1 (example_env ok_transport never_aborted) [always_wait (Fin 10)]
     default_options 3 \<lparr>st_request = example_request, st_world = 2, st_trace = []\<rparr> =
     Some (Inr (ok_response example_request 2),
           \<lparr>st_request = example_request, st_world = 3,
            st_trace = [Sent example_request (Resolved (ok_response example_request 2))]\<rparr>)
   \<and> retryRequest 1 (example_env rest_failing_transport never_aborted) [always_wait (Fin 10)]
       default_options 3 \<lparr>st_request = example_request, st_world = 2, st_trace = []\<rparr> =
     Some (Inl rest_error,
           \<lparr>st_request = example_request, st_world = 3,
            st_trace = [Sent example_request (Rejected rest_error)]\<rparr>)"
proof -
  let ?st = "\<lparr>st_request = example_request, st_world = 2::nat, st_trace = []\<rparr>"
  let ?ok = "example_env ok_transport never_aborted"
  let ?st_ok = "\<lparr>st_request = example_request, st_world = 3::nat,
                 st_trace = [Sent example_request (Resolved (ok_response example_request 2))]\<rparr>"
  let ?bad = "example_env rest_failing_transport never_aborted"
  let ?st_bad = "\<lparr>st_request = example_request, st_world = 3::nat,
                  st_trace = [Sent example_request (Rejected rest_error)]\<rparr>"
  have ok: "attempt ?ok 3 ?st = (Resolved (ok_response example_request 2), ?st_ok)"
    "capture (Resolved (ok_response example_request 2)) =
       Captured (Some (ok_response example_request 2)) None"
    "\<not> env_aborted ?ok (st_request ?st_ok) (st_world ?st_ok)"
    "ceiling_reached default_options 3"
    by (simp_all add: attempt_def capture_def env_simps ceiling_reached_def default_options_def
          DEFAULT_RETRY_POLICY_COUNT_def)
  have bad: "attempt ?bad 3 ?st = (Rejected rest_error, ?st_bad)"
    "capture (Rejected rest_error) = Captured None (Some rest_error)"
    "\<not> env_aborted ?bad (st_request ?st_bad) (st_world ?st_bad)"
    "ceiling_reached default_options 3"
    by (simp_all add: attempt_def capture_def env_simps ceiling_reached_def default_options_def
          DEFAULT_RETRY_POLICY_COUNT_def rest_error_def)
  show ?thesis
    using ceiling_precedence [OF ok, of 0 "[always_wait (Fin 10)]"]
      ceiling_precedence [OF bad, of 0 "[always_wait (Fin 10)]"]
    by (simp add: maxRetriesReached_def truthy_err_def rest_error_def)
qed



text \<open>
  Claim C3, as amended. With \<^verbatim>\<open>maxRetries = 3\<close>, a single strategy that always asks for
  a delay of 10 milliseconds, a transport that always answers with a response, a signal
  that is never set and delays that complete, the policy makes four attempts, of which
  the first is the made-up 429 response and calls no transport: there are exactly three
  transport calls, and the response of the last one is returned. The loop ends with the
  fourth attempt and not before.
\<close>

theorem three_transport_calls:
  assumes "\<forall>req w. \<exists>resp w'. env_next env req w = (Resolved resp, w')"
    and "\<forall>req w. \<not> env_aborted env req w"
    and "\<forall>d w. fst (env_delay env d w) = None"
    and "\<forall>w info. \<exists>m. retry s w info = Inr m \<and> modifiers_verdict m = Wait (Fin 10)"
    and "4 \<le> fuel"
  shows "\<exists>resp st'. sendRequest fuel env [s] \<lparr>maxRetries = Some (Fin 3)\<rparr> req w =
                       Some (Inr resp, st')
           \<and> length (transport_calls (st_trace st')) = 3
           \<and> last (transport_calls (st_trace st')) = Sent req (Resolved resp)
           \<and> sendRequest 3 env [s] \<lparr>maxRetries = Some (Fin 3)\<rparr> req w = None"
proof -
  let ?opts = "\<lparr>maxRetries = Some (Fin 3)\<rparr>"
  let ?st0 = "\<lparr>st_request = req, st_world = w, st_trace = []\<rparr>"
  from assms(5) obtain k where fuel: "fuel = Suc (Suc (Suc (Suc k)))"
    using fuel_four by blast
  have c0: "\<not> ceiling_reached ?opts 0" and c1: "\<not> ceiling_reached ?opts 1"
    and c2: "\<not> ceiling_reached ?opts 2" and c3: "ceiling_reached ?opts 3"
    by (simp_all add: ceiling_three)
  from waiting_attempt [OF assms(1-4) c0, of ?st0]
  obtain st1 k1 where s1: "attemptStep env [s] ?opts 0 ?st0 = Again st1"
    "st_request st1 = req" "transport_calls (st_trace st1) = k1" "length k1 = 0"
    by (auto simp: transport_calls_def)
  from waiting_attempt [OF assms(1-4) c1, of st1]
  obtain st2 k2 where s2: "attemptStep env [s] ?opts 1 st1 = Again st2"
    "st_request st2 = req" "transport_calls (st_trace st2) = k1 @ k2" "length k2 = 1"
    using s1(2,3) by auto
  from waiting_attempt [OF assms(1-4) c2, of st2]
  obtain st3 k3 where s3: "attemptStep env [s] ?opts 2 st2 = Again st3"
    "st_request st3 = req" "transport_calls (st_trace st3) = k1 @ k2 @ k3" "length k3 = 1"
    using s2(2,3) by auto
  from final_attempt [OF assms(1,2) _ c3, of "[s]" st3]
  obtain resp st4 where s4: "attemptStep env [s] ?opts 3 st3 = Finished (Inr resp) st4"
    "transport_calls (st_trace st4) = k1 @ k2 @ k3 @ [Sent req (Resolved resp)]"
    using s3(2,3) by auto
  have "retryRequest (Suc k) env [s] ?opts 3 st3 = Some (Inr resp, st4)"
    using s4(1) by simp
  then have "retryRequest (Suc (Suc k)) env [s] ?opts 2 st2 = Some (Inr resp, st4)"
    using s3(1) by (simp add: numeral_3_eq_3 numeral_2_eq_2)
  then have "retryRequest (Suc (Suc (Suc k))) env [s] ?opts 1 st1 = Some (Inr resp, st4)"
    using s2(1) by (simp add: numeral_2_eq_2)
  then have "retryRequest fuel env [s] ?opts 0 ?st0 = Some (Inr resp, st4)"
    using s1(1) by (simp add: fuel)
  then have "sendRequest fuel env [s] ?opts req w = Some (Inr resp, st4)"
    by (simp add: sendRequest_def)
  moreover have "sendRequest 3 env [s] ?opts req w = None"
    using s1(1) s2(1) s3(1) by (simp add: sendRequest_def numeral_3_eq_3 numeral_2_eq_2)
  ultimately show ?thesis
    using s1(4) s2(4) s3(4) s4(2) by simp
qed

theorem three_transport_calls_witness:
  "\<exists>resp st'. sendRequest 4 (example_env ok_transport never_aborted) [always_wait (Fin 10)]
                  \<lparr>maxRetries = Some (Fin 3)\<rparr> example_request 0 = Some (Inr resp, st')
      \<and> length (transport_calls (st_trace st')) = 3
      \<and> last (transport_calls (st_trace st')) = Sent example_request (Resolved resp)
      \<and> sendRequest 3 (example_env ok_transport never_aborted) [always_wait (Fin 10)]
            \<lparr>maxRetries = Some (Fin 3)\<rparr> example_request 0 = None"
proof -
  let ?env = "example_env ok_transport never_aborted"
  have h: "\<forall>req w. \<exists>resp w'. env_next ?env req w = (Resolved resp, w')"
    "\<forall>req w. \<not> env_aborted ?env req w"
    "\<forall>d w. fst (env_delay ?env d w) = None"
    "\<forall>(w::nat) info. \<exists>m. retry (always_wait (Fin 10)) w info = Inr m
        \<and> modifiers_verdict m = Wait (Fin 10)"
    "(4::nat) \<le> 4"
    by (simp_all add: env_simps modifiers_verdict_def usable_delay_def truthy_err_def
          no_modifiers_def)
  show ?thesis
    by (rule three_transport_calls [OF h])
qed

text \<open>
  Claim C3 as stated counts four transport calls. In this run the transport is called
  three times.
\<close>

theorem four_transport_calls_counterexample:
  "sendRequest 4 (example_env ok_transport never_aborted) [always_wait (Fin 10)]
     \<lparr>maxRetries = Some (Fin 3)\<rparr> example_request 0 =
     Some (Inr (ok_response example_request 2),
           \<lparr>st_request = example_request, st_world = 3,
            st_trace =
              [Consulted ''alwaysWait'', Delayed (Fin 10),
               Sent example_request (Resolved (ok_response example_request 0)),
               Consulted ''alwaysWait'', Delayed (Fin 10),
               Sent example_request (Resolved (ok_response example_request 1)),
               Consulted ''alwaysWait'', Delayed (Fin 10),
               Sent example_request (Resolved (ok_response example_request 2))]\<rparr>)
   \<and> length (transport_calls
        [Consulted ''alwaysWait'', Delayed (Fin 10),
         Sent example_request (Resolved (ok_response example_request 0)),
         Consulted ''alwaysWait'', Delayed (Fin 10),
         Sent example_request (Resolved (ok_response example_request 1)),
         Consulted ''alwaysWait'', Delayed (Fin 10),
         Sent example_request (Resolved (ok_response example_request 2))]) \<noteq> 4"
  by (simp add: eval_nat_numeral policy_simps env_simps transport_calls_def)

end
